theory Spec2Isabelle
  imports Main "HOL-Library.Word" "HOL-Library.Multiset"
begin

section \<open>Bank reconciliation: the function \<open>conciliar\<close> of conciliador.py\<close>

subsection \<open>Cells, rows and frames\<close>

text \<open>
  A cell of the column \<open>importe\<close> is a number rounded to two decimals by
  \<open>limpiar_datos\<close>. The column is of dtype int64 when the file holds whole amounts only,
  and of dtype float64 otherwise. An int64 cell is kept as a signed integer of 54 bits:
  the integers a float holds exactly. A float64 cell is kept as its sign and the number
  of hundredths of its magnitude, below \<open>2^52\<close> hundredths: there the floats tell all
  hundredths apart and Python writes such a float with at most two decimals. The zero
  with the sign set is the float \<open>-0.0\<close>. Larger amounts, infinities and NaN are not
  cells of the model.
\<close>

datatype numero = Entero "54 word" | Flotante bool "52 word"

text \<open>The number a cell stands for, in hundredths; pandas compares cells by it.\<close>

fun valor :: "numero \<Rightarrow> int" where
  "valor (Entero n) = 100 * sint n"
| "valor (Flotante s m) = (if s then - uint m else uint m)"

text \<open>
  A row has the columns the function reads: \<open>idcuenta\<close> (a string), \<open>importe\<close> and
  \<open>fecha\<close>. A timestamp is the integer pandas stores for it, the signed 64-bit number of
  nanoseconds since the epoch. Lines 54 and 55 add a column \<open>key\<close> to the working
  copies; a row of such a frame has the column as a fourth field.
\<close>

record fila =
  idcuenta :: string
  importe :: numero
  fecha :: int

record fila_key = fila +
  key :: string

text \<open>
  A frame is its rows, with the column \<open>fecha\<close> of dtype datetime64, with or without a
  column \<open>key\<close>; or it is the frame read from a file that has a header and no rows,
  where every column, \<open>fecha\<close> too, is of dtype object.
\<close>

datatype dtype = Datetime64 | Object

datatype dataframe =
    DataFrame "fila list"
  | DataFrame_key "fila_key list"
  | DataFrame_object bool

datatype error = MergeError | ValueError | OutOfBoundsTimedelta | KeyError

definition drop_key :: "fila_key \<Rightarrow> fila" where
  "drop_key r = \<lparr>idcuenta = idcuenta r, importe = importe r, fecha = fecha r\<rparr>"

fun filas :: "dataframe \<Rightarrow> fila list" where
  "filas (DataFrame xs) = xs"
| "filas (DataFrame_key ks) = map drop_key ks"
| "filas (DataFrame_object k) = []"

fun dtype_fecha :: "dataframe \<Rightarrow> dtype" where
  "dtype_fecha (DataFrame xs) = Datetime64"
| "dtype_fecha (DataFrame_key ks) = Datetime64"
| "dtype_fecha (DataFrame_object k) = Object"

text \<open>Reading the column \<open>key\<close> of a frame without one is a \<open>KeyError\<close>.\<close>

fun filas_key :: "dataframe \<Rightarrow> error + fila_key list" where
  "filas_key (DataFrame xs) = Inl KeyError"
| "filas_key (DataFrame_key ks) = Inr ks"
| "filas_key (DataFrame_object k) = (if k then Inr [] else Inl KeyError)"

subsection \<open>The grouping key: \<open>idcuenta + importe.astype(str)\<close>\<close>

text \<open>
  \<open>astype(str)\<close> writes each cell as Python's \<open>str\<close> does. An int64 cell is written as
  an integer (\<open>100\<close>). A float64 cell is written with its sign, its integer part, a point,
  and its decimals without trailing zeros but never fewer than one (\<open>100.0\<close>, \<open>12.5\<close>,
  \<open>0.05\<close>, \<open>-0.0\<close>).
\<close>

function digitos :: "nat \<Rightarrow> string" where
  "digitos n = (if n < 10 then [''0123456789'' ! n]
                else digitos (n div 10) @ [''0123456789'' ! (n mod 10)])"
  by pat_completeness auto
termination
  by (relation "measure id") auto

declare digitos.simps [simp del]

fun astype_str :: "numero \<Rightarrow> string" where
  "astype_str (Entero n) =
     (if sint n < 0 then ''-'' else '''') @ digitos (nat \<bar>sint n\<bar>)"
| "astype_str (Flotante s m) =
     (let e = unat m div 100; f = unat m mod 100
      in (if s then ''-'' else '''') @ digitos e @ ''.'' @
         (if f mod 10 = 0 then digitos (f div 10)
          else digitos (f div 10) @ digitos (f mod 10)))"

definition key_of :: "'a fila_scheme \<Rightarrow> string" where
  "key_of r = idcuenta r @ astype_str (importe r)"

definition con_key :: "fila \<Rightarrow> fila_key" where
  "con_key r = \<lparr>idcuenta = idcuenta r, importe = importe r, fecha = fecha r, key = key_of r\<rparr>"

definition assign_key :: "fila list \<Rightarrow> fila_key list" where
  "assign_key df = map con_key df"

text \<open>
  \<open>df['key'] = df['idcuenta'] + df['importe'].astype(str)\<close>: the frame with the column
  \<open>key\<close> set, replacing one it had. On a frame without rows the column is empty.
\<close>

fun setitem_key :: "dataframe \<Rightarrow> dataframe" where
  "setitem_key (DataFrame_object k) = DataFrame_object True"
| "setitem_key df = DataFrame_key (assign_key (filas df))"

subsection \<open>The pandas operations the function calls\<close>

text \<open>
  \<open>pd.merge(..., on=['idcuenta', 'importe', 'fecha'], how='inner')\<close>: every pair of a
  left and a right row that agree on the three columns, in the order of the left frame;
  amounts agree when they are the same number. When the two columns \<open>fecha\<close> differ in
  dtype the merge is refused with a \<open>ValueError\<close>, unless exactly one of the frames has
  no rows.
\<close>

definition merge_inner :: "dtype \<Rightarrow> dtype \<Rightarrow> 'a fila_scheme list \<Rightarrow> 'a fila_scheme list \<Rightarrow>
    error + ('a fila_scheme \<times> 'a fila_scheme) list" where
  "merge_inner dl dr left right =
     (if dl \<noteq> dr \<and> ((left = []) = (right = [])) then Inl ValueError
      else Inr (concat (map (\<lambda>l. map (Pair l)
        (filter (\<lambda>r. idcuenta r = idcuenta l \<and> valor (importe r) = valor (importe l) \<and>
                     fecha r = fecha l) right)) left)))"

text \<open>
  \<open>sort_values('fecha')\<close> is taken as it comes from the library: the function is a
  parameter \<open>sort_values\<close> of the definitions below. What the library promises of it is
  that the result is the same rows in ascending order of \<open>fecha\<close>; the order it gives to
  rows of one timestamp is not fixed (its default sort is not stable on long frames).
  On the short frames of the examples it is the insertion sort \<open>sort_key fecha\<close>.
\<close>

definition es_orden :: "('a fila_scheme list \<Rightarrow> 'a fila_scheme list) \<Rightarrow> bool" where
  "es_orden sort_values \<longleftrightarrow>
     (\<forall>df. sorted (map fecha (sort_values df)) \<and> mset (sort_values df) = mset df)"

text \<open>
  \<open>pd.Timedelta(hours=h)\<close> is a signed 64-bit count of nanoseconds and is refused when
  the count does not fit.
\<close>

definition Timedelta_hours :: "int \<Rightarrow> error + int" where
  "Timedelta_hours h =
     (let ns = h * 3600000000000
      in if \<bar>ns\<bar> \<le> 9223372036854775807 then Inr ns else Inl OutOfBoundsTimedelta)"

text \<open>
  The difference of two timestamps as the join computes it, in signed 64-bit arithmetic:
  a difference of \<open>2^63\<close> nanoseconds or more wraps around and comes out negative.
\<close>

definition dif64 :: "int \<Rightarrow> int \<Rightarrow> int" where
  "dif64 a b = signed_take_bit 63 (a - b)"

text \<open>
  \<open>pd.merge_asof(left, right, on='fecha', by=grp, direction='nearest', tolerance=tol)\<close>
  is a left join: one output row for each left row, in the order of the left frame. For
  a left row the backward search gives the last right row of the same group whose
  timestamp is not later, the forward search the first right row of the same group
  whose timestamp is not earlier; each of the two is given up when its difference is
  greater than the tolerance; of two that remain the one with the smaller difference is
  taken, the backward one when the differences are equal. A negative tolerance and a
  column \<open>fecha\<close> that is not of dtype datetime64 are refused with a \<open>MergeError\<close>, an
  unsorted frame with a \<open>ValueError\<close>.
\<close>

definition asof_backward :: "('a fila_scheme \<Rightarrow> string) \<Rightarrow> int \<Rightarrow> 'a fila_scheme \<Rightarrow>
    'a fila_scheme list \<Rightarrow> 'a fila_scheme option" where
  "asof_backward grp tol l right =
     (case List.find (\<lambda>r. grp r = grp l \<and> fecha r \<le> fecha l) (rev right) of
        None \<Rightarrow> None
      | Some r \<Rightarrow> if dif64 (fecha l) (fecha r) > tol then None else Some r)"

definition asof_forward :: "('a fila_scheme \<Rightarrow> string) \<Rightarrow> int \<Rightarrow> 'a fila_scheme \<Rightarrow>
    'a fila_scheme list \<Rightarrow> 'a fila_scheme option" where
  "asof_forward grp tol l right =
     (case List.find (\<lambda>r. grp r = grp l \<and> fecha l \<le> fecha r) right of
        None \<Rightarrow> None
      | Some r \<Rightarrow> if dif64 (fecha r) (fecha l) > tol then None else Some r)"

definition asof_nearest :: "('a fila_scheme \<Rightarrow> string) \<Rightarrow> int \<Rightarrow> 'a fila_scheme \<Rightarrow>
    'a fila_scheme list \<Rightarrow> 'a fila_scheme option" where
  "asof_nearest grp tol l right =
     (case (asof_backward grp tol l right, asof_forward grp tol l right) of
        (Some rb, Some rf) \<Rightarrow>
          if dif64 (fecha l) (fecha rb) \<le> dif64 (fecha rf) (fecha l) then Some rb else Some rf
      | (Some rb, None) \<Rightarrow> Some rb
      | (None, rf) \<Rightarrow> rf)"

definition merge_asof :: "('a fila_scheme \<Rightarrow> string) \<Rightarrow> int \<Rightarrow> dtype \<Rightarrow> dtype \<Rightarrow>
    'a fila_scheme list \<Rightarrow> 'a fila_scheme list \<Rightarrow>
    error + ('a fila_scheme \<times> 'a fila_scheme option) list" where
  "merge_asof grp tol dl dr left right =
     (if dl \<noteq> Datetime64 \<or> dr \<noteq> Datetime64 \<or> tol < 0 then Inl MergeError
      else if \<not> sorted (map fecha left) \<or> \<not> sorted (map fecha right) then Inl ValueError
      else Inr (map (\<lambda>l. (l, asof_nearest grp tol l right)) left))"

subsection \<open>\<open>conciliar\<close>\<close>

text \<open>
  The function returns four frames. A row of a merged frame is kept as the pair of the
  bank row and the sale row chosen for it, \<open>None\<close> where pandas fills the sale's columns
  with NaN. (The merged frame shows the columns of both rows side by side, with the one
  column \<open>fecha\<close> of the bank row; the pair keeps the sale row whole, so that a statement
  can name the sale record that was chosen.) \<open>importe_banco != importe_venta\<close> is true on
  a row whose sale side is NaN, so line 84 keeps such a row and line 85 drops it.
\<close>

record resultado =
  conciliados :: "(fila \<times> fila option) list"
  ventas_sin_depositar :: "fila list"
  depositos_sin_registro :: "fila list"
  dif_importe :: "(fila_key \<times> fila_key option) list"

text \<open>
  Lines 57 to 87, on the rows of the two working copies once they carry the column
  \<open>key\<close>, and the dtypes of their columns \<open>fecha\<close>. None of these lines assigns to a
  frame: \<open>sort_values\<close>, \<open>merge_asof\<close>, the boolean selections, \<open>drop\<close> and \<open>dropna\<close> each
  return a new frame. The column \<open>key\<close> of the merged frame is the one of the bank side,
  a string on every row, so \<open>dropna\<close> on line 68 removes nothing.
\<close>

definition conciliar_copias :: "(fila_key list \<Rightarrow> fila_key list) \<Rightarrow> dtype \<Rightarrow> dtype \<Rightarrow>
    fila_key list \<Rightarrow> fila_key list \<Rightarrow> int \<Rightarrow> error + resultado" where
  "conciliar_copias sort_values dtype_banco dtype_ventas df_banco_copia df_ventas_copia
       tolerancia_horas =
     (case Timedelta_hours tolerancia_horas of
           Inl e \<Rightarrow> Inl e
         | Inr tol \<Rightarrow>
      (case merge_asof key tol dtype_banco dtype_ventas
              (sort_values df_banco_copia) (sort_values df_ventas_copia) of
           Inl e \<Rightarrow> Inl e
         | Inr conciliados_tol \<Rightarrow>
      (let conciliados_keys = set (map (\<lambda>(b, v). key b) conciliados_tol);
           ventas = map drop_key (filter (\<lambda>r. key r \<notin> conciliados_keys) df_ventas_copia);
           depositos = map drop_key (filter (\<lambda>r. key r \<notin> conciliados_keys) df_banco_copia)
       in case merge_asof idcuenta tol dtype_banco dtype_ventas
                 (sort_values df_banco_copia) (sort_values df_ventas_copia) of
            Inl e \<Rightarrow> Inl e
          | Inr dif \<Rightarrow>
       (let dif1 = filter (\<lambda>(b, v). Some (valor (importe b)) \<noteq> map_option (valor \<circ> importe) v) dif;
            dif2 = filter (\<lambda>(b, v). map_option importe v \<noteq> None) dif1
        in Inr \<lparr>conciliados = map (\<lambda>(b, v). (drop_key b, map_option drop_key v)) conciliados_tol,
                ventas_sin_depositar = ventas,
                depositos_sin_registro = depositos,
                dif_importe = dif2\<rparr>))))"

text \<open>
  The whole function, as a function of its two argument frames. The exact merge of
  lines 45 to 51 is computed and, unless it is refused, never used.
\<close>

definition conciliar :: "(fila_key list \<Rightarrow> fila_key list) \<Rightarrow> dataframe \<Rightarrow> dataframe \<Rightarrow> int \<Rightarrow>
    error + resultado" where
  "conciliar sort_values df_banco df_ventas tolerancia_horas =
     (case merge_inner (dtype_fecha df_banco) (dtype_fecha df_ventas)
             (filas df_banco) (filas df_ventas) of
        Inl e \<Rightarrow> Inl e
      | Inr conciliados_exactos \<Rightarrow>
          conciliar_copias sort_values (dtype_fecha df_banco) (dtype_fecha df_ventas)
            (assign_key (filas df_banco)) (assign_key (filas df_ventas)) tolerancia_horas)"

subsection \<open>The frames as objects\<close>

text \<open>
  The arguments of \<open>conciliar\<close> are references to frames the caller still holds, and lines
  54 and 55 assign a column in place. The store maps a reference to the frame it names;
  \<open>siguiente\<close> is the first reference not yet in use. \<open>copy\<close> allocates a frame with the
  same contents; \<open>df['key'] = ...\<close> replaces the frame at the reference it is given.
\<close>

record heap =
  objs :: "nat \<Rightarrow> dataframe"
  siguiente :: nat

definition copy :: "nat \<Rightarrow> heap \<Rightarrow> nat \<times> heap" where
  "copy r h = (siguiente h,
     h\<lparr>objs := (objs h)(siguiente h := objs h r), siguiente := Suc (siguiente h)\<rparr>)"

definition setitem :: "nat \<Rightarrow> heap \<Rightarrow> heap" where
  "setitem r h = h\<lparr>objs := (objs h)(r := setitem_key (objs h r))\<rparr>"

definition conciliar_heap :: "(fila_key list \<Rightarrow> fila_key list) \<Rightarrow> nat \<Rightarrow> nat \<Rightarrow> int \<Rightarrow> heap \<Rightarrow>
    (error + resultado) \<times> heap" where
  "conciliar_heap sort_values df_banco df_ventas tolerancia_horas h =
     (let (df_banco_copia, h1) = copy df_banco h;
          (df_ventas_copia, h2) = copy df_ventas h1
      in case merge_inner (dtype_fecha (objs h2 df_banco_copia)) (dtype_fecha (objs h2 df_ventas_copia))
                (filas (objs h2 df_banco_copia)) (filas (objs h2 df_ventas_copia)) of
           Inl e \<Rightarrow> (Inl e, h2)
         | Inr conciliados_exactos \<Rightarrow>
      (let h3 = setitem df_banco_copia h2;
           h4 = setitem df_ventas_copia h3
       in ((case filas_key (objs h4 df_banco_copia) of
              Inl e \<Rightarrow> Inl e
            | Inr banco_key \<Rightarrow>
           (case filas_key (objs h4 df_ventas_copia) of
              Inl e \<Rightarrow> Inl e
            | Inr ventas_key \<Rightarrow>
                conciliar_copias sort_values (dtype_fecha (objs h4 df_banco_copia))
                  (dtype_fecha (objs h4 df_ventas_copia)) banco_key ventas_key tolerancia_horas)),
           h4)))"

text \<open>
  The tolerances the function accepts: \<open>merge_asof\<close> refuses a negative one, and
  \<open>pd.Timedelta\<close> one beyond its range.
\<close>

definition tolerancia_valida :: "int \<Rightarrow> bool" where
  "tolerancia_valida h \<longleftrightarrow> 0 \<le> h \<and> h * 3600000000000 \<le> 9223372036854775807"

text \<open>
  Two timestamps are near when their difference does not wrap around: they are less
  than \<open>2^63\<close> nanoseconds (some 292 years) apart.
\<close>

definition cerca64 :: "int \<Rightarrow> int \<Rightarrow> bool" where
  "cerca64 a b \<longleftrightarrow> \<bar>a - b\<bar> < 9223372036854775808"

section \<open>The nearest-neighbour search\<close>

lemma find_SomeD: "List.find P xs = Some x \<Longrightarrow> P x \<and> x \<in> set xs"
  by (induction xs) (auto split: if_splits)

lemma find_map_option: "List.find P (map f xs) = map_option f (List.find (\<lambda>x. P (f x)) xs)"
  by (induction xs) auto

lemma find_forward_least:
  "sorted (map fecha rs) \<Longrightarrow> List.find (\<lambda>r. grp r = g \<and> t \<le> fecha r) rs = Some r \<Longrightarrow>
   s \<in> set rs \<Longrightarrow> grp s = g \<Longrightarrow> t \<le> fecha s \<Longrightarrow> fecha r \<le> fecha s"
  by (induction rs) (auto split: if_splits)

lemma find_backward_greatest:
  "sorted (map fecha rs) \<Longrightarrow> List.find (\<lambda>r. grp r = g \<and> fecha r \<le> t) (rev rs) = Some r \<Longrightarrow>
   s \<in> set rs \<Longrightarrow> grp s = g \<Longrightarrow> fecha s \<le> t \<Longrightarrow> fecha s \<le> fecha r"
  by (induction rs rule: rev_induct) (auto simp: sorted_append split: if_splits)

text \<open>Timestamps that are near have the difference the integers give.\<close>

lemma dif64_cerca: "cerca64 a b \<Longrightarrow> dif64 a b = a - b"
  unfolding cerca64_def dif64_def signed_take_bit_int_eq_self_iff by simp linarith

lemma cerca64_sym: "cerca64 a b \<longleftrightarrow> cerca64 b a"
  by (auto simp: cerca64_def)

lemma dif64_entre: "0 \<le> a - b \<Longrightarrow> a - b < 9223372036854775808 \<Longrightarrow> dif64 a b = a - b"
  unfolding dif64_def signed_take_bit_int_eq_self_iff by simp

lemma asof_backward_Some:
  "asof_backward grp tol l rs = Some r \<Longrightarrow>
   r \<in> set rs \<and> grp r = grp l \<and> fecha r \<le> fecha l \<and> dif64 (fecha l) (fecha r) \<le> tol"
  by (auto simp: asof_backward_def split: option.splits if_splits dest: find_SomeD)

lemma asof_forward_Some:
  "asof_forward grp tol l rs = Some r \<Longrightarrow>
   r \<in> set rs \<and> grp r = grp l \<and> fecha l \<le> fecha r \<and> dif64 (fecha r) (fecha l) \<le> tol"
  by (auto simp: asof_forward_def split: option.splits if_splits dest: find_SomeD)

lemma asof_nearest_cases:
  "asof_nearest grp tol l rs = Some r \<Longrightarrow>
   asof_backward grp tol l rs = Some r \<or> asof_forward grp tol l rs = Some r"
  by (auto simp: asof_nearest_def split: option.splits if_splits)

text \<open>
  The row chosen is a row of the right frame, of the group of the left row, and within
  the tolerance of it when the two timestamps are near.
\<close>

lemma asof_nearest_Some:
  assumes "asof_nearest grp tol l rs = Some r"
  shows "r \<in> set rs" and "grp r = grp l"
    and "cerca64 (fecha l) (fecha r) \<Longrightarrow> \<bar>fecha l - fecha r\<bar> \<le> tol"
proof -
  from asof_nearest_cases [OF assms]
  show "r \<in> set rs" and "grp r = grp l"
    using asof_backward_Some [of grp tol l rs r] asof_forward_Some [of grp tol l rs r]
    by auto
next
  assume c: "cerca64 (fecha l) (fecha r)"
  then have c': "cerca64 (fecha r) (fecha l)" by (simp add: cerca64_sym)
  from asof_nearest_cases [OF assms] show "\<bar>fecha l - fecha r\<bar> \<le> tol"
  proof
    assume "asof_backward grp tol l rs = Some r"
    from asof_backward_Some [OF this] show ?thesis by (simp add: dif64_cerca [OF c])
  next
    assume "asof_forward grp tol l rs = Some r"
    from asof_forward_Some [OF this] show ?thesis by (simp add: dif64_cerca [OF c'])
  qed
qed

lemma asof_backward_within:
  assumes "sorted (map fecha rs)" "s \<in> set rs" "grp s = grp l" "fecha s \<le> fecha l"
  shows "\<exists>r. List.find (\<lambda>r. grp r = grp l \<and> fecha r \<le> fecha l) (rev rs) = Some r \<and>
             fecha s \<le> fecha r \<and> fecha r \<le> fecha l \<and> grp r = grp l \<and> r \<in> set rs"
proof -
  have "List.find (\<lambda>r. grp r = grp l \<and> fecha r \<le> fecha l) (rev rs) \<noteq> None"
    using assms by (auto simp: find_None_iff)
  then obtain r where r: "List.find (\<lambda>r. grp r = grp l \<and> fecha r \<le> fecha l) (rev rs) = Some r"
    by auto
  from find_backward_greatest [OF assms(1) r assms(2) assms(3) assms(4)] find_SomeD [OF r]
  show ?thesis using r by auto
qed

lemma asof_forward_within:
  assumes "sorted (map fecha rs)" "s \<in> set rs" "grp s = grp l" "fecha l \<le> fecha s"
  shows "\<exists>r. List.find (\<lambda>r. grp r = grp l \<and> fecha l \<le> fecha r) rs = Some r \<and>
             fecha r \<le> fecha s \<and> fecha l \<le> fecha r \<and> grp r = grp l \<and> r \<in> set rs"
proof -
  have "List.find (\<lambda>r. grp r = grp l \<and> fecha l \<le> fecha r) rs \<noteq> None"
    using assms by (auto simp: find_None_iff)
  then obtain r where r: "List.find (\<lambda>r. grp r = grp l \<and> fecha l \<le> fecha r) rs = Some r"
    by auto
  from find_forward_least [OF assms(1) r assms(2) assms(3) assms(4)] find_SomeD [OF r]
  show ?thesis using r by auto
qed





text \<open>
  A row of the group inside the window is enough for the search to find one, whatever
  else the frame holds.
\<close>

lemma asof_nearest_finds:
  assumes srt: "sorted (map fecha rs)" and tol: "tol < 9223372036854775808"
    and s: "s \<in> set rs" "grp s = grp l" "\<bar>fecha l - fecha s\<bar> \<le> tol"
  shows "asof_nearest grp tol l rs \<noteq> None"
proof (cases "fecha s \<le> fecha l")
  case True
  from asof_backward_within [OF srt s(1,2) True] obtain rb where
    rb: "List.find (\<lambda>r. grp r = grp l \<and> fecha r \<le> fecha l) (rev rs) = Some rb"
      "fecha s \<le> fecha rb" "fecha rb \<le> fecha l" by blast
  have "dif64 (fecha l) (fecha rb) = fecha l - fecha rb"
    by (rule dif64_entre) (use rb s(3) True tol in auto)
  then have "asof_backward grp tol l rs = Some rb" using rb s(3) True
    by (simp add: asof_backward_def)
  then show ?thesis by (auto simp: asof_nearest_def split: option.splits)
next
  case False
  then have le: "fecha l \<le> fecha s" by simp
  from asof_forward_within [OF srt s(1,2) le] obtain rf where
    rf: "List.find (\<lambda>r. grp r = grp l \<and> fecha l \<le> fecha r) rs = Some rf"
      "fecha rf \<le> fecha s" "fecha l \<le> fecha rf" by blast
  have "dif64 (fecha rf) (fecha l) = fecha rf - fecha l"
    by (rule dif64_entre) (use rf s(3) le tol in auto)
  then have "asof_forward grp tol l rs = Some rf" using rf s(3) le
    by (simp add: asof_forward_def)
  then show ?thesis by (auto simp: asof_nearest_def split: option.splits)
qed

section \<open>What \<open>conciliar\<close> returns\<close>

lemma con_key_sel [simp]:
  "idcuenta (con_key r) = idcuenta r" "importe (con_key r) = importe r"
  "fecha (con_key r) = fecha r" "key (con_key r) = key_of r"
  by (simp_all add: con_key_def)

lemma drop_con_key [simp]: "drop_key (con_key r) = r"
  by (simp add: drop_key_def)

lemma key_of_con_key [simp]: "key_of (con_key r) = key_of r"
  by (simp add: key_of_def)

lemma filas_assign_key [simp]: "map drop_key (assign_key xs) = xs"
  by (simp add: assign_key_def o_def)

lemma set_assign_key [simp]: "set (assign_key xs) = con_key ` set xs"
  by (simp add: assign_key_def)

lemma es_orden_sorted [simp]: "es_orden srt \<Longrightarrow> sorted (map fecha (srt df))"
  by (simp add: es_orden_def)

lemma es_orden_mset: "es_orden srt \<Longrightarrow> mset (srt df) = mset df"
  by (simp add: es_orden_def)

lemma es_orden_set [simp]: "es_orden srt \<Longrightarrow> set (srt df) = set df"
  by (metis es_orden_mset set_mset_mset)

lemma es_orden_length [simp]: "es_orden srt \<Longrightarrow> length (srt df) = length df"
  by (metis es_orden_mset size_mset)

lemma es_orden_sort_key [simp]: "es_orden (sort_key fecha)"
  by (simp add: es_orden_def)

lemma Timedelta_hours_valida:
  "tolerancia_valida h \<Longrightarrow> Timedelta_hours h = Inr (h * 3600000000000)"
  by (simp add: tolerancia_valida_def Timedelta_hours_def)

text \<open>The exact merge of lines 45 to 51 compares the three columns themselves.\<close>

lemma merge_inner_iff:
  "merge_inner Datetime64 Datetime64 bank sales = Inr ps \<Longrightarrow>
   (b, s) \<in> set ps \<longleftrightarrow>
   b \<in> set bank \<and> s \<in> set sales \<and>
   idcuenta s = idcuenta b \<and> valor (importe s) = valor (importe b) \<and> fecha s = fecha b"
  by (force simp: merge_inner_def)

text \<open>
  On two frames with timestamps and a tolerance it accepts, \<open>conciliar\<close> returns the
  following. The keys collected on line 68 are the keys of all bank rows, so the
  unmatched sales are the sale rows whose key no bank row has, and no bank row is left
  for the unmatched deposits.
\<close>

lemma conciliar_valida:
  assumes o: "es_orden srt" and v: "tolerancia_valida h"
    and d: "dtype_fecha df_banco = Datetime64" "dtype_fecha df_ventas = Datetime64"
  shows "conciliar srt df_banco df_ventas h = Inr
    \<lparr>conciliados =
       map (\<lambda>b. (drop_key b, map_option drop_key
              (asof_nearest key (h * 3600000000000) b (srt (assign_key (filas df_ventas))))))
         (srt (assign_key (filas df_banco))),
     ventas_sin_depositar =
       filter (\<lambda>s. key_of s \<notin> key_of ` set (filas df_banco)) (filas df_ventas),
     depositos_sin_registro = [],
     dif_importe =
       filter (\<lambda>(b, v). map_option importe v \<noteq> None)
         (filter (\<lambda>(b, v). Some (valor (importe b)) \<noteq> map_option (valor \<circ> importe) v)
           (map (\<lambda>b. (b, asof_nearest idcuenta (h * 3600000000000) b
                        (srt (assign_key (filas df_ventas)))))
             (srt (assign_key (filas df_banco)))))\<rparr>"
proof -
  have tol: "0 \<le> h * 3600000000000" "\<not> h < 0"
    using v by (simp_all add: tolerancia_valida_def)
  have keys: "(\<lambda>x. key (fst x)) ` (\<lambda>l. (l, g l)) ` con_key ` set (filas df_banco) =
      key_of ` set (filas df_banco)" for g :: "fila_key \<Rightarrow> fila_key option"
    by (auto simp: image_iff)
  have m: "merge_inner Datetime64 Datetime64 (filas df_banco) (filas df_ventas) = Inr ps \<Longrightarrow> True"
    for ps by simp
  show ?thesis
    unfolding conciliar_def conciliar_copias_def Let_def Timedelta_hours_valida [OF v] d
    by (simp add: merge_inner_def merge_asof_def tol o o_def filter_map image_image
        option.map_comp option.map_ident case_prod_beta keys assign_key_def
        cong: map_cong)
qed

lemma conciliar_InrD:
  assumes "conciliar srt df_banco df_ventas h = Inr res"
  shows "tolerancia_valida h" and "dtype_fecha df_banco = Datetime64"
    and "dtype_fecha df_ventas = Datetime64"
proof -
  from assms have "Timedelta_hours h \<noteq> Inl OutOfBoundsTimedelta"
    by (auto simp: conciliar_def conciliar_copias_def split: sum.splits)
  then have r: "\<bar>h * 3600000000000\<bar> \<le> 9223372036854775807"
    and t: "Timedelta_hours h = Inr (h * 3600000000000)"
    by (auto simp: Timedelta_hours_def Let_def split: if_splits)
  from assms t have "\<exists>x. merge_asof key (h * 3600000000000) (dtype_fecha df_banco)
      (dtype_fecha df_ventas) (srt (assign_key (filas df_banco)))
      (srt (assign_key (filas df_ventas))) = Inr x"
    by (auto simp: conciliar_def conciliar_copias_def split: sum.splits)
  then have "dtype_fecha df_banco = Datetime64 \<and> dtype_fecha df_ventas = Datetime64 \<and>
      \<not> h * 3600000000000 < 0"
    by (auto simp: merge_asof_def split: if_splits)
  then show "dtype_fecha df_banco = Datetime64" "dtype_fecha df_ventas = Datetime64"
    "tolerancia_valida h"
    using r by (auto simp: tolerancia_valida_def mult_less_0_iff)
qed

lemma conciliar_negativa:
  "h < 0 \<Longrightarrow> - 9223372036854775807 \<le> h * 3600000000000 \<Longrightarrow>
   dtype_fecha df_banco = Datetime64 \<Longrightarrow> dtype_fecha df_ventas = Datetime64 \<Longrightarrow>
   conciliar srt df_banco df_ventas h = Inl MergeError"
  by (simp add: conciliar_def conciliar_copias_def Timedelta_hours_def merge_asof_def
      merge_inner_def mult_less_0_iff)

lemma conciliar_Inr:
  assumes o: "es_orden srt" and r: "conciliar srt df_banco df_ventas h = Inr res"
  shows "conciliados res =
           map (\<lambda>b. (drop_key b, map_option drop_key
              (asof_nearest key (h * 3600000000000) b (srt (assign_key (filas df_ventas))))))
             (srt (assign_key (filas df_banco)))"
    and "ventas_sin_depositar res =
           filter (\<lambda>s. key_of s \<notin> key_of ` set (filas df_banco)) (filas df_ventas)"
    and "depositos_sin_registro res = []"
    and "dif_importe res =
       filter (\<lambda>(b, v). map_option importe v \<noteq> None)
         (filter (\<lambda>(b, v). Some (valor (importe b)) \<noteq> map_option (valor \<circ> importe) v)
           (map (\<lambda>b. (b, asof_nearest idcuenta (h * 3600000000000) b
                        (srt (assign_key (filas df_ventas)))))
             (srt (assign_key (filas df_banco)))))"
  using r conciliar_valida [OF o conciliar_InrD [OF r], of ] by auto

text \<open>The sale row paired with a bank row, in terms of the rows of the two frames.\<close>

lemma conciliados_iff:
  assumes o: "es_orden srt" and r: "conciliar srt df_banco df_ventas h = Inr res"
  shows "(b, v) \<in> set (conciliados res) \<longleftrightarrow>
         b \<in> set (filas df_banco) \<and>
         v = map_option drop_key
               (asof_nearest key (h * 3600000000000) (con_key b)
                  (srt (assign_key (filas df_ventas))))"
  by (auto simp: conciliar_Inr(1) [OF o r] o image_iff)

lemma pareja_Some:
  assumes o: "es_orden srt"
    and p: "map_option drop_key (asof_nearest key tol (con_key b) (srt (assign_key sales))) = Some s"
  shows "s \<in> set sales" and "key_of s = key_of b"
    and "cerca64 (fecha b) (fecha s) \<Longrightarrow> \<bar>fecha b - fecha s\<bar> \<le> tol"
    and "asof_nearest key tol (con_key b) (srt (assign_key sales)) = Some (con_key s)"
proof -
  from p obtain sk where sk: "asof_nearest key tol (con_key b) (srt (assign_key sales)) = Some sk"
    and s: "s = drop_key sk" by auto
  from asof_nearest_Some(1) [OF sk] o obtain s' where s': "s' \<in> set sales" "sk = con_key s'"
    by auto
  with s have e: "s = s'" by simp
  show "s \<in> set sales" using s' e by simp
  show "key_of s = key_of b" using asof_nearest_Some(2) [OF sk] s' e by simp
  show "asof_nearest key tol (con_key b) (srt (assign_key sales)) = Some (con_key s)"
    using sk s' e by simp
  show "\<bar>fecha b - fecha s\<bar> \<le> tol" if "cerca64 (fecha b) (fecha s)"
    using asof_nearest_Some(3) [OF sk] that s' e by simp
qed

text \<open>The same, for the rows of the two frames.\<close>

lemma pareja_finds:
  assumes o: "es_orden srt" and tol: "tol < 9223372036854775808"
    and s: "s \<in> set sales" "key_of s = key_of b" "\<bar>fecha b - fecha s\<bar> \<le> tol"
  shows "asof_nearest key tol (con_key b) (srt (assign_key sales)) \<noteq> None"
  by (rule asof_nearest_finds [where s = "con_key s"]) (use o tol s in simp_all)


lemma tolerancia_mas_uno:
  assumes "tolerancia_valida h"
  shows "0 \<le> h * 3600000000000" and "h * 3600000000000 + 1 < 9223372036854775808"
proof -
  from assms have h: "0 \<le> h" and b: "h * 3600000000000 \<le> 9223372036854775807"
    by (simp_all add: tolerancia_valida_def)
  from h show "0 \<le> h * 3600000000000" by simp
  from b have "h \<le> 2562047" by linarith
  then have "h * 3600000000000 \<le> 2562047 * 3600000000000" by simp
  then show "h * 3600000000000 + 1 < 9223372036854775808" by simp
qed

section \<open>The claims\<close>

text \<open>
  C1. On the spec's example, a bank record of 1 January and a sale record of 5 January
  with the same account and amount, under 24 hours: the two are not paired, yet both
  residual outputs are empty. The keys collected on line 68 are those of every bank
  row, paired or not.
\<close>

theorem residual_ejemplo:
  "conciliar (sort_key fecha)
     (DataFrame [\<lparr>idcuenta = ''A'', importe = Flotante False 10000,
                  fecha = 1704067200000000000\<rparr>])
     (DataFrame [\<lparr>idcuenta = ''A'', importe = Flotante False 10000,
                  fecha = 1704412800000000000\<rparr>]) 24 =
   Inr \<lparr>conciliados = [(\<lparr>idcuenta = ''A'', importe = Flotante False 10000,
                           fecha = 1704067200000000000\<rparr>, None)],
        ventas_sin_depositar = [], depositos_sin_registro = [], dif_importe = []\<rparr>"
  by (simp add: conciliar_valida tolerancia_valida_def asof_nearest_def
      asof_backward_def asof_forward_def dif64_def assign_key_def key_of_def)

text \<open>
  C6. The key is the account followed by the amount as text, with nothing between them,
  so the account \<open>100\<close> with the amount 12.50 and the account \<open>1001\<close> with the amount 2.50
  have the same key \<open>10012.5\<close>.
\<close>

theorem key_colision:
  "key_of \<lparr>idcuenta = ''100'', importe = Flotante False 1250, fecha = 1704103200000000000\<rparr> =
     key_of \<lparr>idcuenta = ''1001'', importe = Flotante False 250, fecha = 1704103200000000000\<rparr> \<and>
   idcuenta \<lparr>idcuenta = ''100'', importe = Flotante False 1250, fecha = 1704103200000000000\<rparr> \<noteq>
     idcuenta \<lparr>idcuenta = ''1001'', importe = Flotante False 250, fecha = 1704103200000000000\<rparr> \<and>
   valor (importe \<lparr>idcuenta = ''100'', importe = Flotante False 1250,
                    fecha = 1704103200000000000\<rparr>) \<noteq>
     valor (importe \<lparr>idcuenta = ''1001'', importe = Flotante False 250,
                      fecha = 1704103200000000000\<rparr>)"
  by (simp add: key_of_def digitos.simps)

text \<open>
  Rows with the same account and the same cell in \<open>importe\<close> have the same key. Rows with
  the same account and the same amount need not: the amount 100 has the key text \<open>100\<close>
  in an int64 column and \<open>100.0\<close> in a float64 column, and the two zeros of a float64
  column are written \<open>0.0\<close> and \<open>-0.0\<close>.
\<close>

lemma key_of_igual:
  "idcuenta r = idcuenta r' \<Longrightarrow> importe r = importe r' \<Longrightarrow> key_of r = key_of r'"
  by (simp add: key_of_def)

lemma key_separa_dtype:
  "valor (Entero 100) = valor (Flotante False 10000) \<and>
   key_of \<lparr>idcuenta = ''A'', importe = Entero 100, fecha = 1704103200000000000\<rparr> \<noteq>
     key_of \<lparr>idcuenta = ''A'', importe = Flotante False 10000, fecha = 1704103200000000000\<rparr>"
  by (simp add: key_of_def digitos.simps)

lemma key_separa_cero:
  "valor (Flotante True 0) = valor (Flotante False 0) \<and>
   key_of \<lparr>idcuenta = ''A'', importe = Flotante True 0, fecha = 1704103200000000000\<rparr> \<noteq>
     key_of \<lparr>idcuenta = ''A'', importe = Flotante False 0, fecha = 1704103200000000000\<rparr>"
  by (simp add: key_of_def digitos.simps)

text \<open>
  C3. Two bank records and two sale records at one timestamp, the account \<open>100\<close> with
  12.50 and the account \<open>1001\<close> with 2.50 on each side. Each bank record has a sale
  record with its account, amount and timestamp, but the four rows share the key
  \<open>10012.5\<close>, and both bank records are paired with the sale of the account \<open>1001\<close>.
\<close>

theorem fecha_exacta_colision:
  "conciliar (sort_key fecha)
     (DataFrame [\<lparr>idcuenta = ''100'', importe = Flotante False 1250,
                  fecha = 1704103200000000000\<rparr>,
                 \<lparr>idcuenta = ''1001'', importe = Flotante False 250,
                  fecha = 1704103200000000000\<rparr>])
     (DataFrame [\<lparr>idcuenta = ''100'', importe = Flotante False 1250,
                  fecha = 1704103200000000000\<rparr>,
                 \<lparr>idcuenta = ''1001'', importe = Flotante False 250,
                  fecha = 1704103200000000000\<rparr>]) 24 =
   Inr \<lparr>conciliados =
          [(\<lparr>idcuenta = ''100'', importe = Flotante False 1250, fecha = 1704103200000000000\<rparr>,
            Some \<lparr>idcuenta = ''1001'', importe = Flotante False 250,
                   fecha = 1704103200000000000\<rparr>),
           (\<lparr>idcuenta = ''1001'', importe = Flotante False 250, fecha = 1704103200000000000\<rparr>,
            Some \<lparr>idcuenta = ''1001'', importe = Flotante False 250,
                   fecha = 1704103200000000000\<rparr>)],
        ventas_sin_depositar = [], depositos_sin_registro = [], dif_importe = []\<rparr>"
  by (simp add: conciliar_valida tolerancia_valida_def asof_nearest_def
      asof_backward_def asof_forward_def dif64_def assign_key_def key_of_def con_key_def
      drop_key_def digitos.simps)

text \<open>
  Where no sale record shares the bank record's key without sharing its account and
  its cell in \<open>importe\<close>, the bank record is paired with the sale record of its account,
  amount and timestamp.
\<close>

lemma fecha_exacta_sin_colision:
  assumes o: "es_orden srt" and r: "conciliar srt df_banco df_ventas h = Inr res"
    and b: "b \<in> set (filas df_banco)" and s: "s \<in> set (filas df_ventas)"
    and eq: "idcuenta s = idcuenta b" "importe s = importe b" "fecha s = fecha b"
    and sana: "\<forall>s' \<in> set (filas df_ventas). key_of s' = key_of b \<longrightarrow>
                 idcuenta s' = idcuenta b \<and> importe s' = importe b"
  shows "(b, Some s) \<in> set (conciliados res)"
proof -
  let ?tol = "h * 3600000000000"
  let ?S = "srt (assign_key (filas df_ventas))"
  note tv = tolerancia_mas_uno [OF conciliar_InrD(1) [OF r]]
  have k: "key_of s = key_of b" using eq by (simp add: key_of_def)
  have sb: "s = b" using eq by simp
  have "asof_nearest key ?tol (con_key b) ?S \<noteq> None"
    by (rule pareja_finds [OF o _ s k]) (use eq tv in simp_all)
  then obtain r' where r': "asof_nearest key ?tol (con_key b) ?S = Some r'" by auto
  from asof_nearest_Some(1,2) [OF r'] o obtain s' where
    s': "s' \<in> set (filas df_ventas)" "r' = con_key s'" "key_of s' = key_of b"
    by auto
  have f0: "fecha r' = fecha b"
  proof -
    from asof_nearest_cases [OF r'] show ?thesis
    proof
      assume "asof_backward key ?tol (con_key b) ?S = Some r'"
      then obtain x where x: "List.find (\<lambda>r. key r = key (con_key b) \<and> fecha r \<le> fecha (con_key b))
          (rev ?S) = Some x" and "r' = x"
        by (auto simp: asof_backward_def split: option.splits if_splits)
      have "fecha (con_key s) \<le> fecha x"
        by (rule find_backward_greatest [OF _ x]) (use o s k eq in auto)
      moreover from find_SomeD [OF x] have "fecha x \<le> fecha b" by simp
      ultimately show ?thesis using \<open>r' = x\<close> eq by simp
    next
      assume "asof_forward key ?tol (con_key b) ?S = Some r'"
      then obtain x where x: "List.find (\<lambda>r. key r = key (con_key b) \<and> fecha (con_key b) \<le> fecha r)
          ?S = Some x" and "r' = x"
        by (auto simp: asof_forward_def split: option.splits if_splits)
      have "fecha x \<le> fecha (con_key s)"
        by (rule find_forward_least [OF _ x]) (use o s k eq in auto)
      moreover from find_SomeD [OF x] have "fecha b \<le> fecha x" by simp
      ultimately show ?thesis using \<open>r' = x\<close> eq by simp
    qed
  qed
  then have f: "fecha s' = fecha b" by (simp add: s'(2))
  from sana s' have "idcuenta s' = idcuenta b" "importe s' = importe b" by auto
  with f have "s' = b" by simp
  then show ?thesis using b r' s' sb by (simp add: conciliados_iff [OF o r])
qed

lemma dtype_setitem_key [simp]: "dtype_fecha (setitem_key df) = dtype_fecha df"
  by (cases df) simp_all

lemma filas_key_setitem_key [simp]: "filas_key (setitem_key df) = Inr (assign_key (filas df))"
  by (cases df) (simp_all add: assign_key_def)

lemma conciliar_heap_eq:
  assumes "df_banco < siguiente h" "df_ventas < siguiente h"
  shows "fst (conciliar_heap srt df_banco df_ventas t h) =
           conciliar srt (objs h df_banco) (objs h df_ventas) t"
    and "r < siguiente h \<Longrightarrow> objs (snd (conciliar_heap srt df_banco df_ventas t h)) r = objs h r"
  using assms
  by (auto simp: conciliar_heap_def copy_def setitem_def conciliar_def Let_def
      split: sum.splits)

text \<open>
  C9. The two frames handed to \<open>conciliar\<close>, and every other frame that existed before
  the call, are the same after it: the column \<open>key\<close> is assigned to the two copies, which
  are new objects. What the call returns depends on the contents of the two frames only.
\<close>

theorem conciliar_no_modifica_entradas:
  assumes "df_banco < siguiente h" and "df_ventas < siguiente h"
  shows "objs (snd (conciliar_heap srt df_banco df_ventas t h)) df_banco = objs h df_banco \<and>
         objs (snd (conciliar_heap srt df_banco df_ventas t h)) df_ventas = objs h df_ventas \<and>
         (\<forall>r. r < siguiente h \<longrightarrow>
            objs (snd (conciliar_heap srt df_banco df_ventas t h)) r = objs h r) \<and>
         fst (conciliar_heap srt df_banco df_ventas t h) =
           conciliar srt (objs h df_banco) (objs h df_ventas) t"
  using assms by (simp add: conciliar_heap_eq [OF assms])

theorem conciliar_no_modifica_entradas_witness:
  "(0::nat) < 2 \<and> (1::nat) < 2 \<and>
   objs (snd (conciliar_heap (sort_key fecha) 0 1 24
     \<lparr>objs = (\<lambda>r. DataFrame [])
        (0 := DataFrame [\<lparr>idcuenta = ''A'', importe = Flotante False 10000,
                          fecha = 1704103200000000000\<rparr>],
         1 := DataFrame [\<lparr>idcuenta = ''A'', importe = Flotante False 10000,
                          fecha = 1704117600000000000\<rparr>]),
       siguiente = 2\<rparr>)) 0 =
     DataFrame [\<lparr>idcuenta = ''A'', importe = Flotante False 10000,
                 fecha = 1704103200000000000\<rparr>] \<and>
   objs (snd (conciliar_heap (sort_key fecha) 0 1 24
     \<lparr>objs = (\<lambda>r. DataFrame [])
        (0 := DataFrame [\<lparr>idcuenta = ''A'', importe = Flotante False 10000,
                          fecha = 1704103200000000000\<rparr>],
         1 := DataFrame [\<lparr>idcuenta = ''A'', importe = Flotante False 10000,
                          fecha = 1704117600000000000\<rparr>]),
       siguiente = 2\<rparr>)) 1 =
     DataFrame [\<lparr>idcuenta = ''A'', importe = Flotante False 10000,
                 fecha = 1704117600000000000\<rparr>] \<and>
   objs (snd (conciliar_heap (sort_key fecha) 0 1 24
     \<lparr>objs = (\<lambda>r. DataFrame [])
        (0 := DataFrame [\<lparr>idcuenta = ''A'', importe = Flotante False 10000,
                          fecha = 1704103200000000000\<rparr>],
         1 := DataFrame [\<lparr>idcuenta = ''A'', importe = Flotante False 10000,
                          fecha = 1704117600000000000\<rparr>]),
       siguiente = 2\<rparr>)) 2 =
     DataFrame_key [\<lparr>idcuenta = ''A'', importe = Flotante False 10000,
                      fecha = 1704103200000000000, key = ''A100.0''\<rparr>]"
proof -
  let ?b = "\<lparr>idcuenta = ''A'', importe = Flotante False 10000, fecha = 1704103200000000000\<rparr>"
  let ?s = "\<lparr>idcuenta = ''A'', importe = Flotante False 10000, fecha = 1704117600000000000\<rparr>"
  let ?h = "\<lparr>objs = (\<lambda>r. DataFrame [])(0 := DataFrame [?b], 1 := DataFrame [?s]),
             siguiente = 2\<rparr>"
  have a: "0 < siguiente ?h" "1 < siguiente ?h" by simp_all
  from conciliar_no_modifica_entradas [OF a, of "sort_key fecha" 24]
  have "objs (snd (conciliar_heap (sort_key fecha) 0 1 24 ?h)) 0 = objs ?h 0"
    and "objs (snd (conciliar_heap (sort_key fecha) 0 1 24 ?h)) 1 = objs ?h 1"
    by blast+
  moreover have "objs (snd (conciliar_heap (sort_key fecha) 0 1 24 ?h)) 2 =
      DataFrame_key [\<lparr>idcuenta = ''A'', importe = Flotante False 10000,
                       fecha = 1704103200000000000, key = ''A100.0''\<rparr>]"
    by (simp add: conciliar_heap_def copy_def setitem_def merge_inner_def Let_def
        assign_key_def con_key_def key_of_def digitos.simps)
  ultimately show ?thesis by simp
qed

text \<open>
  C10. Two frames read from files that have a header and no rows: their columns \<open>fecha\<close>
  are of dtype object and \<open>merge_asof\<close> on line 57 refuses them.
\<close>

theorem vacio_object_counterexample:
  "conciliar (sort_key fecha) (DataFrame_object False) (DataFrame_object False) 24 =
     Inl MergeError"
  by (simp add: conciliar_def conciliar_copias_def merge_inner_def Timedelta_hours_def
      merge_asof_def)

text \<open>
  C10, as the code has it: on two frames whose columns \<open>fecha\<close> are of dtype datetime64
  and a tolerance it accepts the function raises nothing, whatever rows the frames
  hold, and two such frames without rows give four empty outputs.
\<close>

theorem conciliar_total:
  assumes "es_orden srt" and "tolerancia_valida h"
    and "dtype_fecha df_banco = Datetime64" and "dtype_fecha df_ventas = Datetime64"
  shows "(\<exists>res. conciliar srt df_banco df_ventas h = Inr res) \<and>
         conciliar srt (DataFrame []) (DataFrame []) h =
           Inr \<lparr>conciliados = [], ventas_sin_depositar = [],
                depositos_sin_registro = [], dif_importe = []\<rparr>"
proof
  show "\<exists>res. conciliar srt df_banco df_ventas h = Inr res"
    by (simp add: conciliar_valida [OF assms])
  have "length (srt []) = 0" using es_orden_length [OF assms(1), of "[]"] by simp
  then have "srt (assign_key []) = []" by (simp add: assign_key_def)
  then show "conciliar srt (DataFrame []) (DataFrame []) h =
           Inr \<lparr>conciliados = [], ventas_sin_depositar = [],
                depositos_sin_registro = [], dif_importe = []\<rparr>"
    by (simp add: conciliar_valida [OF assms(1,2)])
qed

theorem conciliar_total_witness:
  "es_orden (sort_key fecha :: fila_key list \<Rightarrow> fila_key list) \<and> tolerancia_valida 24 \<and>
   conciliar (sort_key fecha)
     (DataFrame [\<lparr>idcuenta = ''A'', importe = Flotante False 10000,
                  fecha = 1704103200000000000\<rparr>])
     (DataFrame [\<lparr>idcuenta = ''A'', importe = Flotante False 10000,
                  fecha = 1704117600000000000\<rparr>]) 24 =
   Inr \<lparr>conciliados = [(\<lparr>idcuenta = ''A'', importe = Flotante False 10000,
                           fecha = 1704103200000000000\<rparr>,
           Some \<lparr>idcuenta = ''A'', importe = Flotante False 10000,
                  fecha = 1704117600000000000\<rparr>)],
        ventas_sin_depositar = [], depositos_sin_registro = [], dif_importe = []\<rparr> \<and>
   conciliar (sort_key fecha) (DataFrame []) (DataFrame []) 24 =
     Inr \<lparr>conciliados = [], ventas_sin_depositar = [],
          depositos_sin_registro = [], dif_importe = []\<rparr>"
proof -
  have v: "tolerancia_valida 24" by (simp add: tolerancia_valida_def)
  let ?b = "\<lparr>idcuenta = ''A'', importe = Flotante False 10000, fecha = 1704103200000000000\<rparr>"
  let ?s = "\<lparr>idcuenta = ''A'', importe = Flotante False 10000, fecha = 1704117600000000000\<rparr>"
  have d: "dtype_fecha (DataFrame [?b]) = Datetime64" "dtype_fecha (DataFrame [?s]) = Datetime64"
    by simp_all
  from conciliar_total [OF es_orden_sort_key v d] obtain res where
    r: "conciliar (sort_key fecha) (DataFrame [?b]) (DataFrame [?s]) 24 = Inr res"
    and e: "conciliar (sort_key fecha) (DataFrame []) (DataFrame []) 24 =
      Inr \<lparr>conciliados = [], ventas_sin_depositar = [],
           depositos_sin_registro = [], dif_importe = []\<rparr>"
    by blast
  have "conciliar (sort_key fecha) (DataFrame [?b]) (DataFrame [?s]) 24 =
      Inr \<lparr>conciliados = [(?b, Some ?s)],
        ventas_sin_depositar = [], depositos_sin_registro = [], dif_importe = []\<rparr>"
    by (simp add: conciliar_valida v asof_nearest_def asof_backward_def asof_forward_def
        dif64_def assign_key_def key_of_def con_key_def drop_key_def)
  with v e show ?thesis by simp
qed

text \<open>
  C8. A bank record of the year 2250 and a sale record of its key of the year 1700, under
  24 hours. The bank record has no sale of its key within the tolerance, yet its row in
  the matched output carries the sale: the difference of the two timestamps is more than
  \<open>2^63\<close> nanoseconds, wraps around, and passes the test against the tolerance.
\<close>

theorem fila_nula_counterexample:
  "conciliar (sort_key fecha)
     (DataFrame [\<lparr>idcuenta = ''A'', importe = Flotante False 10000,
                  fecha = 8835955200000000000\<rparr>])
     (DataFrame [\<lparr>idcuenta = ''A'', importe = Flotante False 10000,
                  fecha = - 8520336000000000000\<rparr>]) 24 =
   Inr \<lparr>conciliados = [(\<lparr>idcuenta = ''A'', importe = Flotante False 10000,
                           fecha = 8835955200000000000\<rparr>,
           Some \<lparr>idcuenta = ''A'', importe = Flotante False 10000,
                  fecha = - 8520336000000000000\<rparr>)],
        ventas_sin_depositar = [], depositos_sin_registro = [], dif_importe = []\<rparr> \<and>
   key_of \<lparr>idcuenta = ''A'', importe = Flotante False 10000, fecha = - 8520336000000000000\<rparr> =
     key_of \<lparr>idcuenta = ''A'', importe = Flotante False 10000, fecha = 8835955200000000000\<rparr> \<and>
   (24::int) * 3600000000000 < \<bar>8835955200000000000 - (- 8520336000000000000)\<bar>"
  by (simp add: conciliar_valida tolerancia_valida_def asof_nearest_def
      asof_backward_def asof_forward_def dif64_def assign_key_def key_of_def con_key_def
      drop_key_def)

text \<open>
  C8, as the code has it: the matched output has exactly one row for each bank record,
  in ascending order of timestamp, so its size is the size of the bank input whatever is
  paired; and a bank record all of whose same-key sales are farther than the tolerance,
  and less than \<open>2^63\<close> nanoseconds away, is there with an empty sale side.
\<close>

theorem conciliados_una_fila_por_deposito:
  assumes o: "es_orden srt" and r: "conciliar srt df_banco df_ventas h = Inr res"
  shows "length (conciliados res) = length (filas df_banco) \<and>
         mset (map fst (conciliados res)) = mset (filas df_banco) \<and>
         sorted (map (\<lambda>(b, v). fecha b) (conciliados res)) \<and>
         (\<forall>b \<in> set (filas df_banco).
            (\<forall>s \<in> set (filas df_ventas). key_of s = key_of b \<longrightarrow>
                h * 3600000000000 < \<bar>fecha b - fecha s\<bar> \<and> cerca64 (fecha b) (fecha s))
            \<longrightarrow> (b, None) \<in> set (conciliados res))"
proof (intro conjI ballI impI)
  let ?B = "srt (assign_key (filas df_banco))"
  show "length (conciliados res) = length (filas df_banco)"
    by (simp add: conciliar_Inr(1) [OF o r] o assign_key_def)
  have "map fst (conciliados res) = map drop_key ?B"
    by (simp add: conciliar_Inr(1) [OF o r] o_def)
  then have "mset (map fst (conciliados res)) = image_mset drop_key (mset ?B)" by simp
  also have "\<dots> = image_mset drop_key (mset (assign_key (filas df_banco)))"
    by (simp add: es_orden_mset [OF o])
  also have "\<dots> = mset (filas df_banco)"
    by (simp add: assign_key_def multiset.map_comp o_def)
  finally show "mset (map fst (conciliados res)) = mset (filas df_banco)" .
  have "map (\<lambda>(b, v). fecha b) (conciliados res) = map fecha ?B"
    by (simp add: conciliar_Inr(1) [OF o r] o_def drop_key_def)
  then show "sorted (map (\<lambda>(b, v). fecha b) (conciliados res))" using o by simp
next
  fix b
  let ?tol = "h * 3600000000000"
  let ?p = "map_option drop_key (asof_nearest key ?tol (con_key b)
    (srt (assign_key (filas df_ventas))))"
  assume b: "b \<in> set (filas df_banco)"
    and far: "\<forall>s \<in> set (filas df_ventas). key_of s = key_of b \<longrightarrow>
      ?tol < \<bar>fecha b - fecha s\<bar> \<and> cerca64 (fecha b) (fecha s)"
  have "?p = None"
  proof (rule ccontr)
    assume "?p \<noteq> None"
    then obtain s where s: "?p = Some s" by auto
    from pareja_Some(1,2) [OF o s] far
    have "?tol < \<bar>fecha b - fecha s\<bar>" "cerca64 (fecha b) (fecha s)" by auto
    with pareja_Some(3) [OF o s] show False by simp
  qed
  then show "(b, None) \<in> set (conciliados res)"
    using b by (simp add: conciliados_iff [OF o r])
qed

theorem conciliados_una_fila_por_deposito_witness:
  "conciliar (sort_key fecha)
     (DataFrame [\<lparr>idcuenta = ''A'', importe = Flotante False 10000,
                  fecha = 1704067200000000000\<rparr>])
     (DataFrame [\<lparr>idcuenta = ''A'', importe = Flotante False 10000,
                  fecha = 1704412800000000000\<rparr>]) 24 =
   Inr \<lparr>conciliados = [(\<lparr>idcuenta = ''A'', importe = Flotante False 10000,
                           fecha = 1704067200000000000\<rparr>, None)],
        ventas_sin_depositar = [], depositos_sin_registro = [], dif_importe = []\<rparr> \<and>
   (24::int) * 3600000000000 < \<bar>1704067200000000000 - 1704412800000000000\<bar> \<and>
   cerca64 1704067200000000000 1704412800000000000 \<and>
   length (conciliados \<lparr>conciliados =
       [(\<lparr>idcuenta = ''A'', importe = Flotante False 10000,
           fecha = 1704067200000000000\<rparr>, None)],
        ventas_sin_depositar = [], depositos_sin_registro = [], dif_importe = []\<rparr>) =
     length [\<lparr>idcuenta = ''A'', importe = Flotante False 10000,
              fecha = 1704067200000000000\<rparr>] \<and>
   (\<lparr>idcuenta = ''A'', importe = Flotante False 10000, fecha = 1704067200000000000\<rparr>, None) \<in>
     set (conciliados \<lparr>conciliados =
       [(\<lparr>idcuenta = ''A'', importe = Flotante False 10000,
           fecha = 1704067200000000000\<rparr>, None)],
        ventas_sin_depositar = [], depositos_sin_registro = [], dif_importe = []\<rparr>)"
proof -
  let ?b = "\<lparr>idcuenta = ''A'', importe = Flotante False 10000, fecha = 1704067200000000000\<rparr>"
  let ?s = "\<lparr>idcuenta = ''A'', importe = Flotante False 10000, fecha = 1704412800000000000\<rparr>"
  let ?res = "\<lparr>conciliados = [(?b, None)], ventas_sin_depositar = [],
    depositos_sin_registro = [], dif_importe = []\<rparr>"
  have e: "conciliar (sort_key fecha) (DataFrame [?b]) (DataFrame [?s]) 24 = Inr ?res"
    by (simp add: conciliar_valida tolerancia_valida_def asof_nearest_def
        asof_backward_def asof_forward_def dif64_def assign_key_def key_of_def)
  have far: "\<forall>s \<in> set (filas (DataFrame [?s])). key_of s = key_of ?b \<longrightarrow>
      24 * 3600000000000 < \<bar>fecha ?b - fecha s\<bar> \<and> cerca64 (fecha ?b) (fecha s)"
    by (simp add: cerca64_def)
  from conciliados_una_fila_por_deposito [OF es_orden_sort_key e]
  have "length (conciliados ?res) = length (filas (DataFrame [?b]))"
    and "\<forall>b \<in> set (filas (DataFrame [?b])).
            (\<forall>s \<in> set (filas (DataFrame [?s])). key_of s = key_of b \<longrightarrow>
                24 * 3600000000000 < \<bar>fecha b - fecha s\<bar> \<and> cerca64 (fecha b) (fecha s))
            \<longrightarrow> (b, None) \<in> set (conciliados ?res)"
    by blast+
  with far have "length (conciliados ?res) = length [?b]"
    and "(?b, None) \<in> set (conciliados ?res)" by simp_all
  with e show ?thesis by (simp add: cerca64_def)
qed

text \<open>
  C5. A bank record of the year 2250 and a sale record of its account of the year 1700,
  with another amount, under 24 hours: the two are a row of the discrepancies output,
  550 years apart. The difference of the two timestamps wraps around, as in C8.
\<close>

theorem dif_importe_counterexample:
  "conciliar (sort_key fecha)
     (DataFrame [\<lparr>idcuenta = ''A'', importe = Flotante False 10000,
                  fecha = 8835955200000000000\<rparr>])
     (DataFrame [\<lparr>idcuenta = ''A'', importe = Flotante False 9500,
                  fecha = - 8520336000000000000\<rparr>]) 24 =
   Inr \<lparr>conciliados = [(\<lparr>idcuenta = ''A'', importe = Flotante False 10000,
                           fecha = 8835955200000000000\<rparr>, None)],
        ventas_sin_depositar = [\<lparr>idcuenta = ''A'', importe = Flotante False 9500,
                                  fecha = - 8520336000000000000\<rparr>],
        depositos_sin_registro = [],
        dif_importe = [(\<lparr>idcuenta = ''A'', importe = Flotante False 10000,
                          fecha = 8835955200000000000, key = ''A100.0''\<rparr>,
                        Some \<lparr>idcuenta = ''A'', importe = Flotante False 9500,
                          fecha = - 8520336000000000000, key = ''A95.0''\<rparr>)]\<rparr> \<and>
   (24::int) * 3600000000000 < \<bar>8835955200000000000 - (- 8520336000000000000)\<bar>"
  by (simp add: conciliar_valida tolerancia_valida_def asof_nearest_def
      asof_backward_def asof_forward_def dif64_def assign_key_def key_of_def con_key_def
      drop_key_def digitos.simps)

text \<open>
  C5, as the code has it: no row of the discrepancies output has equal amounts, and
  every row has a sale side, a sale record of the bank record's account; that sale is
  within the tolerance of the bank record when the two timestamps are less than \<open>2^63\<close>
  nanoseconds apart.
\<close>

theorem dif_importe_filtro:
  assumes o: "es_orden srt" and r: "conciliar srt df_banco df_ventas h = Inr res"
    and m: "(b, v) \<in> set (dif_importe res)"
  shows "\<exists>s. v = Some s \<and> valor (importe b) \<noteq> valor (importe s) \<and>
             idcuenta s = idcuenta b \<and>
             drop_key b \<in> set (filas df_banco) \<and> drop_key s \<in> set (filas df_ventas) \<and>
             (cerca64 (fecha b) (fecha s) \<longrightarrow> \<bar>fecha b - fecha s\<bar> \<le> h * 3600000000000)"
proof -
  let ?tol = "h * 3600000000000"
  let ?S = "srt (assign_key (filas df_ventas))"
  let ?f = "\<lambda>b. (b, asof_nearest idcuenta ?tol b ?S)"
  from m have mem: "(b, v) \<in> ?f ` set (srt (assign_key (filas df_banco)))"
    and ne: "map_option importe v \<noteq> None"
      "Some (valor (importe b)) \<noteq> map_option (valor \<circ> importe) v"
    by (simp_all add: conciliar_Inr(4) [OF o r])
  from mem o have b: "b \<in> con_key ` set (filas df_banco)"
    and v: "v = asof_nearest idcuenta ?tol b ?S" by auto
  from ne(1) obtain s where s: "v = Some s" by (cases v) auto
  with v have n: "asof_nearest idcuenta ?tol b ?S = Some s" by simp
  from asof_nearest_Some(1) [OF n] o have "s \<in> con_key ` set (filas df_ventas)" by simp
  then have "drop_key s \<in> set (filas df_ventas)" by auto
  moreover from b have "drop_key b \<in> set (filas df_banco)" by auto
  moreover have "valor (importe b) \<noteq> valor (importe s)" using ne(2) s by simp
  ultimately show ?thesis
    using s asof_nearest_Some(2,3) [OF n] by auto
qed

theorem dif_importe_filtro_witness:
  "conciliar (sort_key fecha)
     (DataFrame [\<lparr>idcuenta = ''A'', importe = Flotante False 10000,
                  fecha = 1704103200000000000\<rparr>])
     (DataFrame [\<lparr>idcuenta = ''A'', importe = Flotante False 9500,
                  fecha = 1704105000000000000\<rparr>]) 24 =
   Inr \<lparr>conciliados = [(\<lparr>idcuenta = ''A'', importe = Flotante False 10000,
                           fecha = 1704103200000000000\<rparr>, None)],
        ventas_sin_depositar = [\<lparr>idcuenta = ''A'', importe = Flotante False 9500,
                                  fecha = 1704105000000000000\<rparr>],
        depositos_sin_registro = [],
        dif_importe = [(\<lparr>idcuenta = ''A'', importe = Flotante False 10000,
                          fecha = 1704103200000000000, key = ''A100.0''\<rparr>,
                        Some \<lparr>idcuenta = ''A'', importe = Flotante False 9500,
                          fecha = 1704105000000000000, key = ''A95.0''\<rparr>)]\<rparr> \<and>
   valor (Flotante False 10000) \<noteq> valor (Flotante False 9500) \<and>
   cerca64 1704103200000000000 1704105000000000000 \<and>
   \<bar>1704103200000000000 - 1704105000000000000\<bar> \<le> (24::int) * 3600000000000"
proof -
  let ?b = "\<lparr>idcuenta = ''A'', importe = Flotante False 10000, fecha = 1704103200000000000\<rparr>"
  let ?s = "\<lparr>idcuenta = ''A'', importe = Flotante False 9500, fecha = 1704105000000000000\<rparr>"
  let ?bk = "\<lparr>idcuenta = ''A'', importe = Flotante False 10000,
    fecha = 1704103200000000000, key = ''A100.0''\<rparr>"
  let ?sk = "\<lparr>idcuenta = ''A'', importe = Flotante False 9500,
    fecha = 1704105000000000000, key = ''A95.0''\<rparr>"
  let ?res = "\<lparr>conciliados = [(?b, None)], ventas_sin_depositar = [?s],
        depositos_sin_registro = [], dif_importe = [(?bk, Some ?sk)]\<rparr>"
  have e: "conciliar (sort_key fecha) (DataFrame [?b]) (DataFrame [?s]) 24 = Inr ?res"
    by (simp add: conciliar_valida tolerancia_valida_def asof_nearest_def
        asof_backward_def asof_forward_def dif64_def assign_key_def key_of_def con_key_def
        drop_key_def digitos.simps)
  have m: "(?bk, Some ?sk) \<in> set (dif_importe ?res)" by simp
  have c: "cerca64 (fecha ?bk) (fecha ?sk)" by (simp add: cerca64_def)
  from dif_importe_filtro [OF es_orden_sort_key e m] obtain s where "Some ?sk = Some s"
    "valor (importe ?bk) \<noteq> valor (importe s)"
    "cerca64 (fecha ?bk) (fecha s) \<longrightarrow> \<bar>fecha ?bk - fecha s\<bar> \<le> 24 * 3600000000000"
    by blast
  with c have "valor (importe ?bk) \<noteq> valor (importe ?sk)"
    "\<bar>fecha ?bk - fecha ?sk\<bar> \<le> 24 * 3600000000000"
    by auto
  with e c show ?thesis by simp
qed










end
